theory Spec2Isabelle
  imports Main "HOL-Library.Word" "HOL-Library.AList" "HOL-Library.Char_ord"
    "HOL-Library.List_Lexorder"
begin

unbundle bit_operations_syntax

section \<open>Go values seen by the result-materialization engine\<close>

text \<open>
  The engine of package \<open>smysql\<close> (and its singleton copy in package \<open>zmysql\<close>, which has
  the same bodies) is embedded function by function. Go's \<open>int64\<close> and \<open>uint64\<close> are 64-bit
  words; a \<open>float64\<close> is carried as its IEEE-754 bit pattern, of which only the pattern of
  \<open>0.0\<close> (all bits clear) is ever inspected. A returned \<open>error\<close> is its message; a run-time
  panic of package \<open>reflect\<close> or of an index expression is the separate fault \<open>Panic\<close>.
\<close>

type_synonym int64 = "64 word"
type_synonym uint64 = "64 word"
type_synonym float64 = "64 word"

datatype fault = Err string | Panic

text \<open>\<open>reflect.Kind\<close>, in the order of its declaration.\<close>

datatype kind =
    KInvalid | KBool
  | KInt | KInt8 | KInt16 | KInt32 | KInt64
  | KUint | KUint8 | KUint16 | KUint32 | KUint64 | KUintptr
  | KFloat32 | KFloat64 | KComplex64 | KComplex128
  | KArray | KChan | KFunc | KInterface | KMap | KPointer | KSlice | KString | KStruct
  | KUnsafePointer

text \<open>\<open>Kind.String()\<close>, which \<open>%s\<close> prints in the conversion errors.\<close>

fun kind_name :: "kind \<Rightarrow> string" where
  "kind_name KInvalid = ''invalid''"
| "kind_name KBool = ''bool''"
| "kind_name KInt = ''int''"
| "kind_name KInt8 = ''int8''"
| "kind_name KInt16 = ''int16''"
| "kind_name KInt32 = ''int32''"
| "kind_name KInt64 = ''int64''"
| "kind_name KUint = ''uint''"
| "kind_name KUint8 = ''uint8''"
| "kind_name KUint16 = ''uint16''"
| "kind_name KUint32 = ''uint32''"
| "kind_name KUint64 = ''uint64''"
| "kind_name KUintptr = ''uintptr''"
| "kind_name KFloat32 = ''float32''"
| "kind_name KFloat64 = ''float64''"
| "kind_name KComplex64 = ''complex64''"
| "kind_name KComplex128 = ''complex128''"
| "kind_name KArray = ''array''"
| "kind_name KChan = ''chan''"
| "kind_name KFunc = ''func''"
| "kind_name KInterface = ''interface''"
| "kind_name KMap = ''map''"
| "kind_name KPointer = ''ptr''"
| "kind_name KSlice = ''slice''"
| "kind_name KString = ''string''"
| "kind_name KStruct = ''struct''"
| "kind_name KUnsafePointer = ''unsafe.Pointer''"

text \<open>
  A \<open>reflect.Type\<close> as far as the engine looks at it: one of the four nullable structs of
  \<open>database/sql\<close>, which the type switch of \<open>setFieldFromNullScanner\<close> recognises behind a
  pointer, or any other type, of which only the kind is seen.
\<close>

datatype go_type = SqlNullString | SqlNullInt64 | SqlNullFloat64 | SqlNullBool | Other kind

fun Kind :: "go_type \<Rightarrow> kind" where
  "Kind (Other k) = k"
| "Kind _ = KStruct"

text \<open>
  What the driver hands over for one column of one row (\<open>driver.Value\<close>): \<open>nil\<close> for SQL
  NULL, or a native value. A \<open>time.Time\<close> is kept opaque.
\<close>

datatype driver_value =
    DNull | DInt int64 | DFloat float64 | DBool bool | DBytes string | DString string
  | DTime nat

text \<open>
  A value of a type the adapter does not wrap (\<open>time.Time\<close>, a user type implementing
  \<open>sql.Scanner\<close>, a byte slice): its zero value, or the state its scan target reached by
  scanning a driver value into the previous state.
\<close>

datatype custom = Custom_zero | Custom_scanned custom driver_value

text \<open>
  The content of one struct field or scalar destination. \<open>VInt\<close> and \<open>VUint\<close> hold what
  \<open>reflect.Value.Int\<close> and \<open>Uint\<close> read back; \<open>VFloat32 x\<close> stands for \<open>float32(x)\<close>, the
  conversion \<open>SetFloat\<close> makes on a \<open>float32\<close> field (its rounding is not computed).
\<close>

datatype gvalue =
    VString string | VInt int64 | VUint uint64 | VFloat float64 | VFloat32 float64
  | VBool bool | VCustom custom

text \<open>The zero value \<open>reflect.New(t).Elem()\<close> gives a field of each kind.\<close>

fun zero_value :: "kind \<Rightarrow> gvalue" where
  "zero_value KString = VString []"
| "zero_value KInt = VInt 0"
| "zero_value KInt8 = VInt 0"
| "zero_value KInt16 = VInt 0"
| "zero_value KInt32 = VInt 0"
| "zero_value KInt64 = VInt 0"
| "zero_value KUint = VUint 0"
| "zero_value KUint8 = VUint 0"
| "zero_value KUint16 = VUint 0"
| "zero_value KUint32 = VUint 0"
| "zero_value KUint64 = VUint 0"
| "zero_value KFloat32 = VFloat32 0"
| "zero_value KFloat64 = VFloat 0"
| "zero_value KBool = VBool False"
| "zero_value _ = VCustom Custom_zero"

definition is_signed :: "kind \<Rightarrow> bool" where
  "is_signed k \<longleftrightarrow> k \<in> {KInt, KInt8, KInt16, KInt32, KInt64}"

definition is_unsigned :: "kind \<Rightarrow> bool" where
  "is_unsigned k \<longleftrightarrow> k \<in> {KUint, KUint8, KUint16, KUint32, KUint64}"

definition is_float :: "kind \<Rightarrow> bool" where
  "is_float k \<longleftrightarrow> k \<in> {KFloat32, KFloat64}"

subsection \<open>The setters of \<open>reflect.Value\<close>\<close>

text \<open>
  Each setter panics on a field of another kind and stores a truncated value in a narrower
  field (\<open>int\<close> and \<open>uint\<close> are 64 bits wide on the platforms the driver supports).
  The fields are exported ones; on an unexported field every setter panics, whatever the
  value.
\<close>

fun SetString :: "kind \<Rightarrow> string \<Rightarrow> fault + gvalue" where
  "SetString KString s = Inr (VString s)"
| "SetString _ s = Inl Panic"

fun SetInt :: "kind \<Rightarrow> int64 \<Rightarrow> fault + gvalue" where
  "SetInt KInt x = Inr (VInt x)"
| "SetInt KInt8 x = Inr (VInt (signed_take_bit 7 x))"
| "SetInt KInt16 x = Inr (VInt (signed_take_bit 15 x))"
| "SetInt KInt32 x = Inr (VInt (signed_take_bit 31 x))"
| "SetInt KInt64 x = Inr (VInt x)"
| "SetInt _ x = Inl Panic"

fun SetUint :: "kind \<Rightarrow> uint64 \<Rightarrow> fault + gvalue" where
  "SetUint KUint x = Inr (VUint x)"
| "SetUint KUint8 x = Inr (VUint (take_bit 8 x))"
| "SetUint KUint16 x = Inr (VUint (take_bit 16 x))"
| "SetUint KUint32 x = Inr (VUint (take_bit 32 x))"
| "SetUint KUint64 x = Inr (VUint x)"
| "SetUint KUintptr x = Inr (VUint x)"
| "SetUint _ x = Inl Panic"

fun SetFloat :: "kind \<Rightarrow> float64 \<Rightarrow> fault + gvalue" where
  "SetFloat KFloat32 x = Inr (VFloat32 x)"
| "SetFloat KFloat64 x = Inr (VFloat x)"
| "SetFloat _ x = Inl Panic"

fun SetBool :: "kind \<Rightarrow> bool \<Rightarrow> fault + gvalue" where
  "SetBool KBool b = Inr (VBool b)"
| "SetBool _ b = Inl Panic"

section \<open>The null-safe scan adapter\<close>

text \<open>
  A scan target, told apart by its dynamic type as the type switch does: a pointer to one
  of the four \<open>sql.Null*\<close> structs (value, then \<open>Valid\<close>), or a pointer to anything else.
\<close>

datatype scanner =
    NullString string bool
  | NullInt64 int64 bool
  | NullFloat64 float64 bool
  | NullBool bool bool
  | CustomPtr custom

text \<open>
  \<open>createNullScanner\<close> switches on the kind. In the default case \<open>reflect.New(fieldType)\<close>
  is a pointer to the field's own type: for a field declared \<open>sql.NullString\<close> (kind struct)
  that is again a \<open>*sql.NullString\<close>, and likewise for the other three.
\<close>

definition createNullScanner :: "go_type \<Rightarrow> scanner" where
  "createNullScanner fieldType =
     (if Kind fieldType = KString then NullString [] False
      else if is_signed (Kind fieldType) then NullInt64 0 False
      else if is_unsigned (Kind fieldType) then NullInt64 0 False
      else if is_float (Kind fieldType) then NullFloat64 0 False
      else if Kind fieldType = KBool then NullBool False False
      else (case fieldType of
              SqlNullString \<Rightarrow> NullString [] False
            | SqlNullInt64 \<Rightarrow> NullInt64 0 False
            | SqlNullFloat64 \<Rightarrow> NullFloat64 0 False
            | SqlNullBool \<Rightarrow> NullBool False False
            | Other k \<Rightarrow> CustomPtr Custom_zero))"

text \<open>
  \<open>setFieldFromNullScanner field scanner fieldType\<close>: \<open>field\<close> is the field's content before
  the call and the result its content after it; of \<open>fieldType\<close> the function reads the kind
  only, which is the field's own kind at every call site. The valid branches check the kind
  and return an error; the NULL branches call the setter unchecked. So a field declared as
  one of the four \<open>sql.Null*\<close> structs, whose target is that struct, is refused with
  "cannot convert ... to struct" on a value, and on NULL reaches a setter that panics (for
  \<open>sql.NullInt64\<close>: is left as it is). The last case is the \<open>default\<close> of the type switch:
  the target came from \<open>reflect.New\<close> on the field's type and is assigned whole.
\<close>

fun setFieldFromNullScanner :: "gvalue \<Rightarrow> scanner \<Rightarrow> kind \<Rightarrow> fault + gvalue" where
  "setFieldFromNullScanner field (NullString s valid) fieldType =
     (if valid then
        (if fieldType \<noteq> KString
         then Inl (Err (''cannot convert string to '' @ kind_name fieldType))
         else SetString fieldType s)
      else SetString fieldType [])"
| "setFieldFromNullScanner field (NullInt64 i valid) fieldType =
     (if valid then
        (if is_signed fieldType then SetInt fieldType i
         else if is_unsigned fieldType then
           (if i <s 0 then Inl (Err ''cannot convert negative value to unsigned type'')
            else SetUint fieldType i)
         else Inl (Err (''cannot convert int64 to '' @ kind_name fieldType)))
      else
        (if is_signed fieldType then SetInt fieldType 0
         else if is_unsigned fieldType then SetUint fieldType 0
         else Inr field))"
| "setFieldFromNullScanner field (NullFloat64 x valid) fieldType =
     (if valid then
        (if fieldType \<noteq> KFloat32 \<and> fieldType \<noteq> KFloat64
         then Inl (Err (''cannot convert float64 to '' @ kind_name fieldType))
         else SetFloat fieldType x)
      else SetFloat fieldType 0)"
| "setFieldFromNullScanner field (NullBool b valid) fieldType =
     (if valid then
        (if fieldType \<noteq> KBool
         then Inl (Err (''cannot convert bool to '' @ kind_name fieldType))
         else SetBool fieldType b)
      else SetBool fieldType False)"
| "setFieldFromNullScanner field (CustomPtr c) fieldType = Inr (VCustom c)"

section \<open>The cursor and the library under the engine\<close>

text \<open>
  Decimal printing of \<open>%d\<close>.
\<close>

definition digit_char :: "nat \<Rightarrow> char" where
  "digit_char d = char_of (48 + d)"

function show_nat :: "nat \<Rightarrow> string" where
  "show_nat n = (if n < 10 then [digit_char n] else show_nat (n div 10) @ [digit_char (n mod 10)])"
  by pat_completeness auto
termination
  by (relation "measure id") auto

declare show_nat.simps [simp del]

definition show_int64 :: "int64 \<Rightarrow> string" where
  "show_int64 i = (if i <s 0 then CHR ''-'' # show_nat (nat (- sint i)) else show_nat (nat (sint i)))"

text \<open>
  The parts of \<open>database/sql\<close>, \<open>fmt\<close> and \<open>encoding/json\<close> that are not this repository's
  code are a parameter of the engine: the conversion \<open>convertAssign\<close> makes of a non-NULL
  driver value whose type differs from the target's, the \<open>Scan\<close> method of a custom target
  (\<open>None\<close>: it accepts the value), \<open>fmt.Sscanf(s, "%d", &val)\<close> (\<open>None\<close>: an error), and
  whether \<open>json.Marshal\<close> rejects a driver value.
\<close>

record sql_lib =
  conv_string :: "driver_value \<Rightarrow> string + string"
  conv_int64 :: "driver_value \<Rightarrow> string + int64"
  conv_float64 :: "driver_value \<Rightarrow> string + float64"
  conv_bool :: "driver_value \<Rightarrow> string + bool"
  custom_scan_error :: "custom \<Rightarrow> driver_value \<Rightarrow> string option"
  sscanf_d :: "string \<Rightarrow> int64 option"
  json_value_error :: "driver_value \<Rightarrow> string option"

text \<open>
  \<open>Scan\<close> of one column. Each \<open>sql.Null*\<close> target stores \<open>Valid = false\<close> and its zero value
  for \<open>nil\<close>; otherwise a value of the target's own type is assigned as it is and any other
  goes through the library's conversion.
\<close>

fun scan_value :: "sql_lib \<Rightarrow> scanner \<Rightarrow> driver_value \<Rightarrow> string + scanner" where
  "scan_value L (NullString _ _) v =
     (case v of DNull \<Rightarrow> Inr (NullString [] False)
      | DBytes s \<Rightarrow> Inr (NullString s True)
      | DString s \<Rightarrow> Inr (NullString s True)
      | _ \<Rightarrow> (case conv_string L v of Inl e \<Rightarrow> Inl e | Inr s \<Rightarrow> Inr (NullString s True)))"
| "scan_value L (NullInt64 _ _) v =
     (case v of DNull \<Rightarrow> Inr (NullInt64 0 False)
      | DInt i \<Rightarrow> Inr (NullInt64 i True)
      | _ \<Rightarrow> (case conv_int64 L v of Inl e \<Rightarrow> Inl e | Inr i \<Rightarrow> Inr (NullInt64 i True)))"
| "scan_value L (NullFloat64 _ _) v =
     (case v of DNull \<Rightarrow> Inr (NullFloat64 0 False)
      | DFloat x \<Rightarrow> Inr (NullFloat64 x True)
      | _ \<Rightarrow> (case conv_float64 L v of Inl e \<Rightarrow> Inl e | Inr x \<Rightarrow> Inr (NullFloat64 x True)))"
| "scan_value L (NullBool _ _) v =
     (case v of DNull \<Rightarrow> Inr (NullBool False False)
      | DBool b \<Rightarrow> Inr (NullBool b True)
      | _ \<Rightarrow> (case conv_bool L v of Inl e \<Rightarrow> Inl e | Inr b \<Rightarrow> Inr (NullBool b True)))"
| "scan_value L (CustomPtr c) v =
     (case custom_scan_error L c v of Some e \<Rightarrow> Inl e | None \<Rightarrow> Inr (CustomPtr (Custom_scanned c v)))"

fun scan_cells :: "sql_lib \<Rightarrow> scanner list \<Rightarrow> driver_value list \<Rightarrow> string + scanner list" where
  "scan_cells L (d # ds) (v # vs) =
     (case scan_value L d v of Inl e \<Rightarrow> Inl e
      | Inr d' \<Rightarrow> (case scan_cells L ds vs of Inl e \<Rightarrow> Inl e | Inr ds' \<Rightarrow> Inr (d' # ds')))"
| "scan_cells L _ _ = Inr []"

text \<open>
  \<open>rows.Scan(dest...)\<close> on the current row: the targets are overwritten from left to right
  and the first failing column ends the call.
\<close>

definition Scan :: "sql_lib \<Rightarrow> scanner list \<Rightarrow> driver_value list \<Rightarrow> string + scanner list" where
  "Scan L dest row =
     (if length row \<noteq> length dest
      then Inl (''sql: expected '' @ show_nat (length row) @ '' destination arguments in Scan, not ''
                @ show_nat (length dest))
      else scan_cells L dest row)"

text \<open>
  One result set as the cursor shows it: what \<open>rows.Columns()\<close> returns, the rows that
  successive calls of \<open>rows.Next()\<close> deliver before it returns false, and the error, if
  any, that ends the result set there. \<open>rows.Err()\<close> reports that error once \<open>Next\<close> has
  returned false. \<open>database/sql\<close> closes the cursor when \<open>Next\<close> fails, and the driver meets
  the same error when it is asked to skip the rows not yet read: either way
  \<open>rows.NextResultSet()\<close> is then false, whatever the procedure would have sent after.
\<close>

record result_set =
  rs_columns :: "string + string list"
  rs_rows :: "driver_value list list"
  rs_err :: "string option"

text \<open>
  What the database answers to \<open>Prepare\<close> and \<open>Query\<close>: a failure of either, or a cursor on
  the first result set with the further result sets \<open>rows.NextResultSet()\<close> moves to.
\<close>

datatype db_reply = PrepareFails string | QueryFails string | Rows result_set "result_set list"

section \<open>The type mapping cache\<close>

text \<open>
  A struct type is the list of its fields, each with its \<open>db\<close> tag and its type.
  \<open>getFieldsMapping\<close> is computed once per type and kept in \<open>fields\<close>; the mapping kept is the
  one computed here.
\<close>

datatype field = Field (tag: string) (ftype: go_type)

fun mapping_loop :: "nat \<Rightarrow> field list \<Rightarrow> (string \<rightharpoonup> nat) \<Rightarrow> (string \<rightharpoonup> nat)" where
  "mapping_loop i [] mapping = mapping"
| "mapping_loop i (f # fs) mapping =
     mapping_loop (Suc i) fs (if tag f \<noteq> [] then mapping(tag f \<mapsto> i) else mapping)"

definition getFieldsMapping :: "field list \<Rightarrow> (string \<rightharpoonup> nat)" where
  "getFieldsMapping t = mapping_loop 0 t Map.empty"

text \<open>
  A destination handed to the engine as \<open>any\<close>: not a pointer, a pointer to something that is
  neither a struct nor a slice, a pointer to a struct with the content of its fields, or a
  pointer to a slice with its elements (\<open>None\<close>: the element type is not a struct, and
  \<open>NumField\<close> panics on it).
\<close>

datatype dest =
    NotPtr
  | PtrOther
  | PtrStruct "field list" "gvalue list"
  | PtrSlice "field list option" "gvalue list list"

section \<open>The row materializer\<close>

text \<open>
  The scan targets made once per query (\<open>for i := range columns\<close>): the adapter of the mapped
  field's type, or a \<open>sql.NullString\<close> for a column no field is tagged with.
\<close>

definition make_scanDest :: "(string \<rightharpoonup> nat) \<Rightarrow> field list \<Rightarrow> string list \<Rightarrow> scanner list" where
  "make_scanDest fieldsMapping t columns =
     map (\<lambda>c. case fieldsMapping c of
                 Some fieldIndex \<Rightarrow> createNullScanner (ftype (t ! fieldIndex))
               | None \<Rightarrow> NullString [] False) columns"

text \<open>
  The loop \<open>for i, col := range columns\<close> that sets the mapped fields of \<open>item\<close> one after the
  other. It returns the item as the loop leaves it, also when a field fails: where the item
  is the caller's own struct, the fields set before the failure stay set.
\<close>

fun set_fields ::
  "(string \<rightharpoonup> nat) \<Rightarrow> field list \<Rightarrow> (string \<times> scanner) list \<Rightarrow> gvalue list
     \<Rightarrow> fault option \<times> gvalue list" where
  "set_fields fieldsMapping t [] item = (None, item)"
| "set_fields fieldsMapping t ((col, sc) # rest) item =
     (case fieldsMapping col of
        None \<Rightarrow> set_fields fieldsMapping t rest item
      | Some fieldIndex \<Rightarrow>
          (case setFieldFromNullScanner (item ! fieldIndex) sc (Kind (ftype (t ! fieldIndex))) of
             Inl (Err e) \<Rightarrow> (Some (Err (''failed to set field '' @ col @ '': '' @ e)), item)
           | Inl Panic \<Rightarrow> (Some Panic, item)
           | Inr v \<Rightarrow> set_fields fieldsMapping t rest (item[fieldIndex := v])))"

definition new_item :: "field list \<Rightarrow> gvalue list" where
  "new_item t = map (\<lambda>f. zero_value (Kind (ftype f))) t"




text \<open>
  \<open>First\<close>: the result is \<open>(found, error)\<close> and the destination when the call returns. The
  fields are set on the caller's struct itself.
\<close>

definition First :: "sql_lib \<Rightarrow> dest \<Rightarrow> db_reply \<Rightarrow> (bool \<times> fault option) \<times> dest" where
  "First L d reply =
     (case d of
        PtrStruct structType vals \<Rightarrow>
          (case reply of
             PrepareFails err \<Rightarrow> ((False, Some (Err (''failed to prepare query: '' @ err))), d)
           | QueryFails err \<Rightarrow> ((False, Some (Err (''failed to execute query: '' @ err))), d)
           | Rows rows _ \<Rightarrow>
               (case rs_columns rows of
                  Inl err \<Rightarrow> ((False, Some (Err (''failed to get columns: '' @ err))), d)
                | Inr columns \<Rightarrow>
                    (let fieldsMapping = getFieldsMapping structType;
                         scanDest = make_scanDest fieldsMapping structType columns
                     in case rs_rows rows of
                          [] \<Rightarrow> ((False, None), d)
                        | row # _ \<Rightarrow>
                            (case Scan L scanDest row of
                               Inl e \<Rightarrow> ((False, Some (Err (''failed to scan row: '' @ e))), d)
                             | Inr scanDest' \<Rightarrow>
                                 (case set_fields fieldsMapping structType (zip columns scanDest') vals of
                                    (Some f, vals') \<Rightarrow> ((False, Some f), PtrStruct structType vals')
                                  | (None, vals') \<Rightarrow> ((True, None), PtrStruct structType vals'))))))
      | _ \<Rightarrow> ((False, Some (Err ''dest must be a pointer to a struct'')), d))"

section \<open>The multi-result-set dispatcher\<close>





section \<open>Generic scalar, array and map retrieval\<close>

text \<open>
  The type parameter \<open>T int64 | string\<close> of \<open>firstColAny\<close> and \<open>findArray\<close>, and a value of it.
\<close>

datatype elem_type = T_int64 | T_string

datatype scalar = SInt int64 | SStr string

fun zero_scalar :: "elem_type \<Rightarrow> scalar" where
  "zero_scalar T_int64 = SInt 0"
| "zero_scalar T_string = SStr []"

text \<open>
  \<open>firstColAny\<close> returns \<open>(T, bool, error)\<close>. The targets \<open>nullInt\<close> and \<open>nullStr\<close> are typed
  variables, so the last branch of each \<open>case\<close> on the scanned target is never taken.
\<close>

definition firstColAny :: "sql_lib \<Rightarrow> elem_type \<Rightarrow> db_reply \<Rightarrow> scalar \<times> bool \<times> fault option" where
  "firstColAny L T reply =
     (let zero = zero_scalar T in
      case reply of
        PrepareFails err \<Rightarrow> (zero, False, Some (Err (''failed to prepare query: '' @ err)))
      | QueryFails err \<Rightarrow> (zero, False, Some (Err (''failed to execute query: '' @ err)))
      | Rows rows _ \<Rightarrow>
          (case rs_columns rows of
             Inl err \<Rightarrow> (zero, False, Some (Err (''failed to get columns: '' @ err)))
           | Inr columns \<Rightarrow>
               if length columns \<noteq> 1
               then (zero, False,
                     Some (Err (''expected a single column result, but got ''
                                @ show_nat (length columns) @ '' columns'')))
               else
                 (case rs_rows rows of
                    [] \<Rightarrow> (zero, False, None)
                  | row # _ \<Rightarrow>
                      (case T of
                         T_int64 \<Rightarrow>
                           (case Scan L [NullInt64 0 False] row of
                              Inl e \<Rightarrow> (zero, False, Some (Err (''failed to scan column: '' @ e)))
                            | Inr [NullInt64 i valid] \<Rightarrow>
                                if valid then (SInt i, True, None) else (zero, True, None)
                            | Inr _ \<Rightarrow> (zero, False, Some Panic))
                       | T_string \<Rightarrow>
                           (case Scan L [NullString [] False] row of
                              Inl e \<Rightarrow> (zero, False, Some (Err (''failed to scan column: '' @ e)))
                            | Inr [NullString s valid] \<Rightarrow>
                                if valid then (SStr s, True, None) else (zero, True, None)
                            | Inr _ \<Rightarrow> (zero, False, Some Panic))))))"

text \<open>
  \<open>findArray\<close>. The column is the first one named \<open>fieldName\<close> (the search loop breaks).
  The result \<open>[]T\<close> is \<open>None\<close> for Go's \<open>nil\<close>.
\<close>

fun first_index :: "nat \<Rightarrow> string list \<Rightarrow> string \<Rightarrow> nat option" where
  "first_index i [] fieldName = None"
| "first_index i (col # cols) fieldName =
     (if col = fieldName then Some i else first_index (Suc i) cols fieldName)"

definition array_scanDest :: "elem_type \<Rightarrow> nat \<Rightarrow> nat \<Rightarrow> scanner list" where
  "array_scanDest T n fieldIndex =
     map (\<lambda>i. if i = fieldIndex
               then (case T of T_int64 \<Rightarrow> NullInt64 0 False | T_string \<Rightarrow> NullString [] False)
               else NullString [] False) [0..<n]"

fun findArray_loop ::
  "sql_lib \<Rightarrow> elem_type \<Rightarrow> nat \<Rightarrow> nat \<Rightarrow> driver_value list list \<Rightarrow> scalar list
     \<Rightarrow> fault + scalar list" where
  "findArray_loop L T n fieldIndex [] results = Inr results"
| "findArray_loop L T n fieldIndex (row # rows) results =
     (case Scan L (array_scanDest T n fieldIndex) row of
        Inl e \<Rightarrow> Inl (Err (''failed to scan row: '' @ e))
      | Inr scanDest \<Rightarrow>
          (case T of
             T_int64 \<Rightarrow>
               (case scanDest ! fieldIndex of
                  NullInt64 i valid \<Rightarrow>
                    findArray_loop L T n fieldIndex rows
                      (if valid then results @ [SInt i] else results)
                | _ \<Rightarrow> Inl Panic)
           | T_string \<Rightarrow>
               (case scanDest ! fieldIndex of
                  NullString s valid \<Rightarrow>
                    findArray_loop L T n fieldIndex rows
                      (if valid then results @ [SStr s] else results)
                | _ \<Rightarrow> Inl Panic)))"

definition findArray ::
  "sql_lib \<Rightarrow> elem_type \<Rightarrow> string \<Rightarrow> db_reply \<Rightarrow> scalar list option \<times> fault option" where
  "findArray L T fieldName reply =
     (case reply of
        PrepareFails err \<Rightarrow> (None, Some (Err (''failed to prepare query: '' @ err)))
      | QueryFails err \<Rightarrow> (None, Some (Err (''failed to execute query: '' @ err)))
      | Rows rows _ \<Rightarrow>
          (case rs_columns rows of
             Inl err \<Rightarrow> (None, Some (Err (''failed to get columns: '' @ err)))
           | Inr columns \<Rightarrow>
               (case first_index 0 columns fieldName of
                  None \<Rightarrow>
                    (None, Some (Err (''field '' @ [CHR 0x27] @ fieldName @ [CHR 0x27]
                                      @ '' not found in query results'')))
                | Some fieldIndex \<Rightarrow>
                    (case findArray_loop L T (length columns) fieldIndex (rs_rows rows) [] of
                       Inl f \<Rightarrow> (None, Some f)
                     | Inr results \<Rightarrow>
                         (case rs_err rows of
                            Some err \<Rightarrow> (None, Some (Err (''rows iteration error: '' @ err)))
                          | None \<Rightarrow>
                              if length results = 0 then (None, None)
                              else (Some results, None))))))"

text \<open>
  \<open>findMap[T comparable, Y any]\<close>. The type switches know \<open>string\<close> and \<open>int64\<close>; a key or
  value of any other type keeps its zero value. The map is an association list with one
  entry per key, \<open>result[key] = value\<close> replacing the entry of a key already present.
\<close>

datatype key_type = KT_string | KT_int64 | KT_other

datatype val_type = VT_string | VT_int64 | VT_struct "field list" | VT_other

datatype mkey = KeyStr string | KeyInt int64 | KeyZero

datatype mval = ValStr string | ValInt int64 | ValStruct "gvalue list" | ValZero

fun zero_key :: "key_type \<Rightarrow> mkey" where
  "zero_key KT_string = KeyStr []"
| "zero_key KT_int64 = KeyInt 0"
| "zero_key KT_other = KeyZero"

fun zero_val :: "val_type \<Rightarrow> mval" where
  "zero_val VT_string = ValStr []"
| "zero_val VT_int64 = ValInt 0"
| "zero_val (VT_struct t) = ValStruct (new_item t)"
| "zero_val VT_other = ValZero"

fun isStructType :: "val_type \<Rightarrow> bool" where
  "isStructType (VT_struct t) = True"
| "isStructType _ = False"

fun struct_fields :: "val_type \<Rightarrow> field list" where
  "struct_fields (VT_struct t) = t"
| "struct_fields _ = []"

text \<open>The search for \<open>keyIndex\<close> and \<open>valueIndex\<close> does not break: the last match stays.\<close>

fun last_index :: "nat \<Rightarrow> string list \<Rightarrow> string \<Rightarrow> nat option \<Rightarrow> nat option" where
  "last_index i [] name found = found"
| "last_index i (col # cols) name found =
     last_index (Suc i) cols name (if col = name then Some i else found)"

text \<open>
  The key of a scanned row: \<open>(keyValid, key)\<close>. \<open>keyValid\<close> is set as soon as the target is
  valid, before the text is parsed; a failed \<open>Sscanf\<close> leaves \<open>key\<close> at its zero value.
\<close>

definition row_key :: "sql_lib \<Rightarrow> key_type \<Rightarrow> scanner \<Rightarrow> bool \<times> mkey" where
  "row_key L T keyScanner =
     (case keyScanner of
        NullString s valid \<Rightarrow>
          if valid then
            (True, case T of
                     KT_string \<Rightarrow> KeyStr s
                   | KT_int64 \<Rightarrow> (case sscanf_d L s of Some val \<Rightarrow> KeyInt val | None \<Rightarrow> zero_key T)
                   | KT_other \<Rightarrow> zero_key T)
          else (False, zero_key T)
      | NullInt64 i valid \<Rightarrow>
          if valid then
            (True, case T of
                     KT_int64 \<Rightarrow> KeyInt i
                   | KT_string \<Rightarrow> KeyStr (show_int64 i)
                   | KT_other \<Rightarrow> zero_key T)
          else (False, zero_key T)
      | _ \<Rightarrow> (False, zero_key T))"

text \<open>
  The value of a scanned row. With an empty \<open>valueField\<close> and a \<open>Y\<close> that is not a struct,
  \<open>valueIndex\<close> is still \<open>-1\<close> and \<open>scanDest[valueIndex]\<close> panics.
\<close>

definition row_value ::
  "sql_lib \<Rightarrow> val_type \<Rightarrow> string \<Rightarrow> (string \<rightharpoonup> nat) \<Rightarrow> string list \<Rightarrow> nat option
     \<Rightarrow> scanner list \<Rightarrow> fault + mval" where
  "row_value L Y valueField fieldsMapping columns valueIndex scanDest =
     (if valueField = [] \<and> isStructType Y then
        (case set_fields fieldsMapping (struct_fields Y) (zip columns scanDest)
                (new_item (struct_fields Y)) of
           (Some f, _) \<Rightarrow> Inl f
         | (None, newStruct) \<Rightarrow> Inr (ValStruct newStruct))
      else
        (case valueIndex of
           None \<Rightarrow> Inl Panic
         | Some vi \<Rightarrow>
             (case scanDest ! vi of
                NullString s valid \<Rightarrow>
                  if valid then
                    (case Y of
                       VT_string \<Rightarrow> Inr (ValStr s)
                     | VT_int64 \<Rightarrow>
                         (case sscanf_d L s of Some val \<Rightarrow> Inr (ValInt val) | None \<Rightarrow> Inr (zero_val Y))
                     | _ \<Rightarrow> Inr (zero_val Y))
                  else Inr (zero_val Y)
              | _ \<Rightarrow> Inl Panic)))"

definition map_scanDest ::
  "val_type \<Rightarrow> string \<Rightarrow> (string \<rightharpoonup> nat) \<Rightarrow> string list \<Rightarrow> scanner list" where
  "map_scanDest Y valueField fieldsMapping columns =
     (if isStructType Y \<and> valueField = []
      then make_scanDest fieldsMapping (struct_fields Y) columns
      else map (\<lambda>c. NullString [] False) columns)"

fun findMap_loop ::
  "sql_lib \<Rightarrow> key_type \<Rightarrow> val_type \<Rightarrow> string \<Rightarrow> (string \<rightharpoonup> nat) \<Rightarrow> string list \<Rightarrow> nat
     \<Rightarrow> nat option \<Rightarrow> driver_value list list \<Rightarrow> (mkey \<times> mval) list
     \<Rightarrow> fault + (mkey \<times> mval) list" where
  "findMap_loop L T Y valueField fieldsMapping columns keyIndex valueIndex [] result = Inr result"
| "findMap_loop L T Y valueField fieldsMapping columns keyIndex valueIndex (row # rows) result =
     (case Scan L (map_scanDest Y valueField fieldsMapping columns) row of
        Inl e \<Rightarrow> Inl (Err (''failed to scan row: '' @ e))
      | Inr scanDest \<Rightarrow>
          (case row_key L T (scanDest ! keyIndex) of
             (False, _) \<Rightarrow>
               findMap_loop L T Y valueField fieldsMapping columns keyIndex valueIndex rows result
           | (True, key) \<Rightarrow>
               (case row_value L Y valueField fieldsMapping columns valueIndex scanDest of
                  Inl f \<Rightarrow> Inl f
                | Inr v \<Rightarrow>
                    findMap_loop L T Y valueField fieldsMapping columns keyIndex valueIndex rows
                      (AList.update key v result))))"

definition findMap ::
  "sql_lib \<Rightarrow> key_type \<Rightarrow> val_type \<Rightarrow> string \<Rightarrow> string \<Rightarrow> db_reply
     \<Rightarrow> (mkey \<times> mval) list option \<times> fault option" where
  "findMap L T Y keyField valueField reply =
     (if keyField = [] then (None, Some (Err ''keyField cannot be empty''))
      else
        (case reply of
           PrepareFails err \<Rightarrow> (None, Some (Err (''failed to prepare query: '' @ err)))
         | QueryFails err \<Rightarrow> (None, Some (Err (''failed to execute query: '' @ err)))
         | Rows rows _ \<Rightarrow>
             (case rs_columns rows of
                Inl err \<Rightarrow> (None, Some (Err (''failed to get columns: '' @ err)))
              | Inr columns \<Rightarrow>
                  (let keyIndex = last_index 0 columns keyField None;
                       valueIndex = (if valueField \<noteq> [] then last_index 0 columns valueField None
                                     else None)
                   in case keyIndex of
                        None \<Rightarrow>
                          (None, Some (Err (''key field '' @ [CHR 0x27] @ keyField @ [CHR 0x27]
                                            @ '' not found in query results'')))
                      | Some ki \<Rightarrow>
                          if valueField \<noteq> [] \<and> valueIndex = None
                          then (None, Some (Err (''value field '' @ [CHR 0x27] @ valueField @ [CHR 0x27]
                                                 @ '' not found in query results'')))
                          else
                            (let fieldsMapping = (if isStructType Y then getFieldsMapping (struct_fields Y)
                                                  else Map.empty)
                             in case findMap_loop L T Y valueField fieldsMapping columns ki valueIndex
                                       (rs_rows rows) [] of
                                  Inl f \<Rightarrow> (None, Some f)
                                | Inr result \<Rightarrow>
                                    (case rs_err rows of
                                       Some err \<Rightarrow> (None, Some (Err (''rows iteration error: '' @ err)))
                                     | None \<Rightarrow>
                                         if length result = 0 then (None, None)
                                         else (Some result, None)))))))"

section \<open>The write path and the raw JSON projection\<close>

text \<open>
  What the database answers to \<open>Prepare\<close> and \<open>stmt.Exec\<close>: a failure of either, or a result
  with what its \<open>RowsAffected()\<close> returns.
\<close>

datatype exec_reply = ExecPrepareFails string | ExecFails string | ExecResult "string + int64"

definition Exec :: "exec_reply \<Rightarrow> bool \<times> fault option" where
  "Exec reply =
     (case reply of
        ExecPrepareFails err \<Rightarrow> (False, Some (Err (''failed to prepare query: '' @ err)))
      | ExecFails err \<Rightarrow> (False, Some (Err (''failed to execute query: '' @ err)))
      | ExecResult (Inl err) \<Rightarrow> (False, Some (Err (''failed to get affected rows: '' @ err)))
      | ExecResult (Inr rowsAffected) \<Rightarrow> (0 <s rowsAffected, None))"

type_synonym IS_LIST_TYPE = "8 word"

definition HAS_ONE :: IS_LIST_TYPE where
  "HAS_ONE = 1"

definition HAS_LIST :: IS_LIST_TYPE where
  "HAS_LIST = 2"

text \<open>
  The bytes \<open>json.Marshal\<close> writes, as the JSON text they spell: \<open>null\<close>, the encoding of a
  driver value other than \<open>nil\<close>, an object with its members in the order written (sorted
  by key), or an array.
\<close>

datatype json = JNull | JValue driver_value | JObject "(string \<times> json) list" | JArray "json list"

text \<open>
  A Go slice that may be \<open>nil\<close>: \<open>var resultData []map[string]any\<close> is \<open>nil\<close> until the first
  \<open>append\<close>.
\<close>

fun go_append :: "'a list option \<Rightarrow> 'a \<Rightarrow> 'a list option" where
  "go_append None x = Some [x]"
| "go_append (Some xs) x = Some (xs @ [x])"

fun go_len :: "'a list option \<Rightarrow> nat" where
  "go_len None = 0"
| "go_len (Some xs) = length xs"

text \<open>
  \<open>rows.Scan\<close> into \<open>*any\<close> cells stores each driver value as it is.
\<close>

definition Scan_any :: "nat \<Rightarrow> driver_value list \<Rightarrow> string + driver_value list" where
  "Scan_any n row =
     (if length row \<noteq> n
      then Inl (''sql: expected '' @ show_nat (length row) @ '' destination arguments in Scan, not ''
                @ show_nat n)
      else Inr row)"

text \<open>\<open>rowMap[col] = rowData[i]\<close> for each column in turn.\<close>

fun make_rowMap :: "(string \<times> driver_value) list \<Rightarrow> (string \<times> driver_value) list
    \<Rightarrow> (string \<times> driver_value) list" where
  "make_rowMap [] rowMap = rowMap"
| "make_rowMap ((col, v) # rest) rowMap = make_rowMap rest (AList.update col v rowMap)"

fun marshal_value :: "sql_lib \<Rightarrow> driver_value \<Rightarrow> string + json" where
  "marshal_value L DNull = Inr JNull"
| "marshal_value L v = (case json_value_error L v of Some e \<Rightarrow> Inl e | None \<Rightarrow> Inr (JValue v))"

fun marshal_members :: "sql_lib \<Rightarrow> (string \<times> driver_value) list \<Rightarrow> string + (string \<times> json) list" where
  "marshal_members L [] = Inr []"
| "marshal_members L ((k, v) # kvs) =
     (case marshal_value L v of
        Inl e \<Rightarrow> Inl e
      | Inr j \<Rightarrow> (case marshal_members L kvs of Inl e \<Rightarrow> Inl e | Inr js \<Rightarrow> Inr ((k, j) # js)))"

text \<open>\<open>json.Marshal\<close> of a \<open>map[string]any\<close>: an object, the keys sorted.\<close>

definition marshal_map :: "sql_lib \<Rightarrow> (string \<times> driver_value) list \<Rightarrow> string + json" where
  "marshal_map L rowMap =
     (case marshal_members L (sort_key fst rowMap) of Inl e \<Rightarrow> Inl e | Inr ms \<Rightarrow> Inr (JObject ms))"

fun marshal_maps :: "sql_lib \<Rightarrow> (string \<times> driver_value) list list \<Rightarrow> string + json list" where
  "marshal_maps L [] = Inr []"
| "marshal_maps L (m # ms) =
     (case marshal_map L m of
        Inl e \<Rightarrow> Inl e
      | Inr j \<Rightarrow> (case marshal_maps L ms of Inl e \<Rightarrow> Inl e | Inr js \<Rightarrow> Inr (j # js)))"

text \<open>\<open>json.Marshal\<close> of a \<open>[]map[string]any\<close>: \<open>null\<close> for a \<open>nil\<close> slice, else an array.\<close>

fun marshal_slice :: "sql_lib \<Rightarrow> (string \<times> driver_value) list list option \<Rightarrow> string + json" where
  "marshal_slice L None = Inr JNull"
| "marshal_slice L (Some ms) =
     (case marshal_maps L ms of Inl e \<Rightarrow> Inl e | Inr js \<Rightarrow> Inr (JArray js))"

fun ExecByte_loop ::
  "string list \<Rightarrow> driver_value list list \<Rightarrow> (string \<times> driver_value) list list option
     \<Rightarrow> fault + (string \<times> driver_value) list list option" where
  "ExecByte_loop columns [] resultData = Inr resultData"
| "ExecByte_loop columns (row # rows) resultData =
     (case Scan_any (length columns) row of
        Inl e \<Rightarrow> Inl (Err (''failed to scan row: '' @ e))
      | Inr rowData \<Rightarrow>
          ExecByte_loop columns rows (go_append resultData (make_rowMap (zip columns rowData) [])))"

text \<open>\<open>ExecByte\<close> returns \<open>([]byte, error)\<close>; \<open>ExecProcByte\<close> has the same body after \<open>Query\<close>.\<close>

definition ExecByte :: "sql_lib \<Rightarrow> IS_LIST_TYPE \<Rightarrow> db_reply \<Rightarrow> json option \<times> fault option" where
  "ExecByte L isList reply =
     (case reply of
        PrepareFails err \<Rightarrow> (None, Some (Err (''failed to prepare query: '' @ err)))
      | QueryFails err \<Rightarrow> (None, Some (Err (''failed to execute query: '' @ err)))
      | Rows rows _ \<Rightarrow>
          (case rs_columns rows of
             Inl err \<Rightarrow> (None, Some (Err (''failed to get columns: '' @ err)))
           | Inr columns \<Rightarrow>
               (case ExecByte_loop columns (rs_rows rows) None of
                  Inl f \<Rightarrow> (None, Some f)
                | Inr resultData \<Rightarrow>
                    (case rs_err rows of
                       Some err \<Rightarrow> (None, Some (Err (''rows iteration error: '' @ err)))
                     | None \<Rightarrow>
                         if isList = HAS_ONE \<and> go_len resultData \<ge> 1 then
                           (case resultData of
                              Some (first # _) \<Rightarrow>
                                (case marshal_map L first of
                                   Inl err \<Rightarrow>
                                     (None, Some (Err (''failed to marshal single result data: '' @ err)))
                                 | Inr jsonData \<Rightarrow> (Some jsonData, None))
                            | _ \<Rightarrow> (None, Some Panic))
                         else
                           (case marshal_slice L resultData of
                              Inl err \<Rightarrow> (None, Some (Err (''failed to marshal result data: '' @ err)))
                            | Inr jsonData \<Rightarrow> (Some jsonData, None))))))"

definition ExecProcByte :: "sql_lib \<Rightarrow> IS_LIST_TYPE \<Rightarrow> db_reply \<Rightarrow> json option \<times> fault option" where
  "ExecProcByte L isList reply = ExecByte L isList reply"

section \<open>A library instance for worked examples\<close>

text \<open>
  \<open>strconv.ParseInt(s, 10, 64)\<close>: an optional sign, then digits only, at least one, the whole
  text, within the range of an \<open>int64\<close>.
\<close>

definition is_digit :: "char \<Rightarrow> bool" where
  "is_digit c \<longleftrightarrow> (48::nat) \<le> of_char c \<and> (of_char c :: nat) \<le> 57"

fun digits_value :: "nat \<Rightarrow> string \<Rightarrow> nat" where
  "digits_value acc [] = acc"
| "digits_value acc (c # cs) = digits_value (10 * acc + (of_char c - 48)) cs"

definition parse_int :: "string \<Rightarrow> int64 option" where
  "parse_int s =
     (let neg = (s \<noteq> [] \<and> hd s = CHR ''-'');
          ds = (if s \<noteq> [] \<and> (hd s = CHR ''-'' \<or> hd s = CHR ''+'') then tl s else s)
      in if ds = [] \<or> \<not> list_all is_digit ds then None
         else (let n = digits_value 0 ds
               in if neg then (if n \<le> 2 ^ 63 then Some (- word_of_nat n) else None)
                  else (if n < 2 ^ 63 then Some (word_of_nat n) else None)))"

text \<open>
  The white space \<open>fmt\<close> skips before a number, in the UTF-8 bytes of the text: the length
  of the white-space rune at the head of the text (U+0009 to U+000D but for the newline,
  U+0020, U+0085, U+00A0, U+1680, U+2000 to U+200A, U+2028, U+2029, U+202F, U+205F, U+3000),
  or 0. A newline is not skipped by \<open>Sscanf\<close>: it is an error.
\<close>

definition space_len :: "string \<Rightarrow> nat" where
  "space_len s =
     (if s = [] then 0
      else if hd s \<in> {CHR 0x09, CHR 0x0B, CHR 0x0C, CHR 0x0D, CHR 0x20} then 1
      else if take 2 s = [CHR 0xC2, CHR 0x85] \<or> take 2 s = [CHR 0xC2, CHR 0xA0] then 2
      else if take 3 s = [CHR 0xE1, CHR 0x9A, CHR 0x80]
            \<or> (take 2 s = [CHR 0xE2, CHR 0x80] \<and> 3 \<le> length s
                \<and> ((128::nat) \<le> of_char (s ! 2) \<and> (of_char (s ! 2) :: nat) \<le> 138
                    \<or> s ! 2 \<in> {CHR 0xA8, CHR 0xA9, CHR 0xAF}))
            \<or> take 3 s = [CHR 0xE2, CHR 0x81, CHR 0x9F]
            \<or> take 3 s = [CHR 0xE3, CHR 0x80, CHR 0x80] then 3
      else 0)"

function skip_space :: "string \<Rightarrow> string option" where
  "skip_space s =
     (if s \<noteq> [] \<and> hd s = CHR 0x0A then None
      else if space_len s = 0 then Some s
      else skip_space (drop (space_len s) s))"
  by pat_completeness auto
termination
  by (relation "measure length") (auto simp: space_len_def split: if_splits)

declare skip_space.simps [simp del]

text \<open>
  \<open>fmt.Sscanf(s, "%d", &val)\<close>: white space is skipped, one sign is accepted, the longest
  run of digits after it is taken, and sign and digits are handed to \<open>ParseInt\<close>; what
  follows the digits is not read.
\<close>

definition sscanf_decimal :: "string \<Rightarrow> int64 option" where
  "sscanf_decimal s =
     (case skip_space s of
        None \<Rightarrow> None
      | Some s1 \<Rightarrow>
          (let sign = (if s1 \<noteq> [] \<and> (hd s1 = CHR ''-'' \<or> hd s1 = CHR ''+'') then [hd s1] else []);
               tok = sign @ takeWhile is_digit (drop (length sign) s1)
           in parse_int tok))"

text \<open>\<open>strconv.ParseBool\<close>.\<close>

definition parse_bool :: "string \<Rightarrow> bool option" where
  "parse_bool s =
     (if s \<in> {''1'', ''t'', ''T'', ''TRUE'', ''true'', ''True''} then Some True
      else if s \<in> {''0'', ''f'', ''F'', ''FALSE'', ''false'', ''False''} then Some False
      else None)"

text \<open>
  The instance computes the conversions \<open>convertAssign\<close> makes between integers, booleans
  and text. It does not compute the text of a \<open>float64\<close> or of a \<open>time.Time\<close>, nor a
  \<open>float64\<close> or an integer from a value of another type where that needs the decimal form
  of a float: those conversions, which the library performs, are errors here, and no
  example below has such a cell. The message of a failed conversion is not the library's.
  A custom target accepts whatever it is given, and \<open>json.Marshal\<close> refuses a \<open>float64\<close>
  that is infinite or not a number (the year of a \<open>time.Time\<close> the driver has parsed is
  one it accepts).
\<close>

definition example_conv_string :: "driver_value \<Rightarrow> string + string" where
  "example_conv_string v =
     (case v of
        DInt i \<Rightarrow> Inr (show_int64 i)
      | DBool b \<Rightarrow> Inr (if b then ''true'' else ''false'')
      | _ \<Rightarrow> Inl ''conversion not computed'')"

definition example_conv_int64 :: "driver_value \<Rightarrow> string + int64" where
  "example_conv_int64 v =
     (case v of
        DBytes s \<Rightarrow> (case parse_int s of Some i \<Rightarrow> Inr i | None \<Rightarrow> Inl ''conversion failed'')
      | DString s \<Rightarrow> (case parse_int s of Some i \<Rightarrow> Inr i | None \<Rightarrow> Inl ''conversion failed'')
      | DFloat x \<Rightarrow> Inl ''conversion not computed''
      | _ \<Rightarrow> Inl ''conversion failed'')"

definition example_conv_float64 :: "driver_value \<Rightarrow> string + float64" where
  "example_conv_float64 v =
     (case v of
        DBool b \<Rightarrow> Inl ''conversion failed''
      | DTime t \<Rightarrow> Inl ''conversion failed''
      | _ \<Rightarrow> Inl ''conversion not computed'')"

definition example_conv_bool :: "driver_value \<Rightarrow> string + bool" where
  "example_conv_bool v =
     (case v of
        DInt i \<Rightarrow> (if i = 1 then Inr True else if i = 0 then Inr False
                   else Inl ''conversion failed'')
      | DBytes s \<Rightarrow> (case parse_bool s of Some b \<Rightarrow> Inr b | None \<Rightarrow> Inl ''conversion failed'')
      | DString s \<Rightarrow> (case parse_bool s of Some b \<Rightarrow> Inr b | None \<Rightarrow> Inl ''conversion failed'')
      | _ \<Rightarrow> Inl ''conversion failed'')"

definition example_json_error :: "driver_value \<Rightarrow> string option" where
  "example_json_error v =
     (case v of
        DFloat x \<Rightarrow> (if take_bit 11 (drop_bit 52 x) = 2047 then Some ''json: unsupported value''
                     else None)
      | _ \<Rightarrow> None)"

definition example_lib :: sql_lib where
  "example_lib = \<lparr> conv_string = example_conv_string,
                   conv_int64 = example_conv_int64,
                   conv_float64 = example_conv_float64,
                   conv_bool = example_conv_bool,
                   custom_scan_error = (\<lambda>c v. None),
                   sscanf_d = sscanf_decimal,
                   json_value_error = example_json_error \<rparr>"

section \<open>What a cell of the named column contributes to an array\<close>

text \<open>
  The element \<open>findArray\<close> appends for a cell of the named column, read off \<open>Scan\<close> alone:
  the value the typed target holds when it is valid, and nothing otherwise.
\<close>

definition cell_scalar :: "sql_lib \<Rightarrow> elem_type \<Rightarrow> driver_value \<Rightarrow> scalar option" where
  "cell_scalar L T v =
     (case T of
        T_int64 \<Rightarrow> (case scan_value L (NullInt64 0 False) v of
                      Inr (NullInt64 i True) \<Rightarrow> Some (SInt i) | _ \<Rightarrow> None)
      | T_string \<Rightarrow> (case scan_value L (NullString [] False) v of
                       Inr (NullString s True) \<Rightarrow> Some (SStr s) | _ \<Rightarrow> None))"

section \<open>The null-safe scan adapter: NULL and negative values\<close>

text \<open>
  C1. For a destination field of string, float or bool kind, and for every signed or
  unsigned integer kind, the adapter made for the field turns a SQL NULL column value into
  the zero value of the field's kind, whatever the field held before: the empty string,
  0.0, false, or zero.
\<close>

theorem null_sets_zero_value:
  assumes "Kind t = KString \<or> is_float (Kind t) \<or> Kind t = KBool \<or> is_signed (Kind t)
             \<or> is_unsigned (Kind t)"
  shows "\<exists>sc. scan_value L (createNullScanner t) DNull = Inr sc
            \<and> setFieldFromNullScanner old sc (Kind t) = Inr (zero_value (Kind t))
            \<and> zero_value (Kind t) = (if Kind t = KString then VString []
                               else if Kind t = KFloat64 then VFloat 0
                               else if Kind t = KFloat32 then VFloat32 0
                               else if Kind t = KBool then VBool False
                               else if is_signed (Kind t) then VInt 0 else VUint 0)"
proof (cases t)
  case (Other k)
  with assms show ?thesis
    by (cases k) (simp_all add: createNullScanner_def is_float_def is_signed_def is_unsigned_def)
qed (insert assms, simp_all add: is_float_def is_signed_def is_unsigned_def)

theorem null_sets_zero_value_witness:
  "\<exists>sc. scan_value example_lib (createNullScanner (Other KFloat32)) DNull = Inr sc
       \<and> setFieldFromNullScanner (VFloat32 5) sc KFloat32 = Inr (VFloat32 0)"
  using null_sets_zero_value [of "Other KFloat32" example_lib "VFloat32 5"]
  by (simp add: is_float_def)

text \<open>
  C7. For a destination field of unsigned-integer kind, the adapter is the nullable 64-bit
  integer target, and setting the field from a valid negative value returns the error
  "cannot convert negative value to unsigned type": nothing is stored, wrapped or
  truncated.
\<close>

theorem negative_into_unsigned_errors:
  assumes "is_unsigned (Kind t)" and "i <s 0"
  shows "createNullScanner t = NullInt64 0 False
       \<and> scan_value L (createNullScanner t) (DInt i) = Inr (NullInt64 i True)
       \<and> setFieldFromNullScanner old (NullInt64 i True) (Kind t)
           = Inl (Err ''cannot convert negative value to unsigned type'')"
proof (cases t)
  case (Other k)
  with assms show ?thesis
    by (cases k) (simp_all add: createNullScanner_def is_float_def is_signed_def is_unsigned_def)
qed (insert assms, simp_all add: is_unsigned_def)

theorem negative_into_unsigned_errors_witness:
  "setFieldFromNullScanner (VUint 9) (NullInt64 (-1) True) KUint8
     = Inl (Err ''cannot convert negative value to unsigned type'')"
  using negative_into_unsigned_errors [of "Other KUint8" "-1" example_lib "VUint 9"]
  by (simp add: is_unsigned_def)

section \<open>The write path\<close>

text \<open>
  C10. A call of \<open>Exec\<close> returns no error only when the statement was prepared and executed
  and its affected-row count was read; the boolean is then true exactly when that count is
  greater than zero, and a statement that affected no row returns \<open>(false, nil)\<close>.
\<close>

theorem Exec_true_iff_rows_affected:
  "(snd (Exec reply) = None \<longrightarrow>
      (\<exists>n. reply = ExecResult (Inr n) \<and> fst (Exec reply) = (0 < sint n)))
   \<and> Exec (ExecResult (Inr rowsAffected)) = (0 < sint rowsAffected, None)
   \<and> Exec (ExecResult (Inr 0)) = (False, None)"
proof -
  have "snd (Exec reply) = None \<longrightarrow>
      (\<exists>n. reply = ExecResult (Inr n) \<and> fst (Exec reply) = (0 < sint n))"
    by (cases reply) (auto simp: Exec_def word_sless_alt split: sum.splits)
  then show ?thesis by (simp add: Exec_def word_sless_alt)
qed

theorem Exec_true_iff_rows_affected_witness:
  "Exec (ExecResult (Inr 3)) = (True, None) \<and> Exec (ExecResult (Inr 0)) = (False, None)"
  using Exec_true_iff_rows_affected [of "ExecResult (Inr 3)" 3]
  by simp

section \<open>One row into a record\<close>

text \<open>
  C8. \<open>First\<close> on a prepared and executed query whose result has no row returns
  \<open>found = false\<close> and no error, and the caller's struct holds in every field what it held
  before the call.
\<close>

theorem First_no_row:
  assumes "rs_columns rows = Inr columns" and "rs_rows rows = []"
  shows "First L (PtrStruct structType vals) (Rows rows rest)
           = ((False, None), PtrStruct structType vals)"
  using assms by (simp add: First_def)

theorem First_no_row_witness:
  "First example_lib
     (PtrStruct [Field ''id'' (Other KInt64), Field ''name'' (Other KString)] [VInt 7, VString ''kept''])
     (Rows \<lparr> rs_columns = Inr [''id'', ''name''], rs_rows = [], rs_err = None \<rparr> [])
   = ((False, None),
      PtrStruct [Field ''id'' (Other KInt64), Field ''name'' (Other KString)] [VInt 7, VString ''kept''])"
  using First_no_row [of "\<lparr> rs_columns = Inr [''id'', ''name''], rs_rows = [], rs_err = None \<rparr>"
      "[''id'', ''name'']"]
  by simp

section \<open>The generic scalar\<close>

text \<open>
  C2. For \<open>firstColAny\<close> on a single-column result, with \<open>T\<close> either \<open>int64\<close> or \<open>string\<close>: no
  row gives the zero value of \<open>T\<close> with \<open>found = false\<close> and no error; a first row whose
  column is SQL NULL gives the zero value of \<open>T\<close> with \<open>found = true\<close> and no error. The two
  results differ in \<open>found\<close>.
\<close>

theorem firstColAny_no_row_vs_null:
  assumes "rs_columns rows = Inr [c]"
  shows "(rs_rows rows = [] \<longrightarrow> firstColAny L T (Rows rows rest) = (zero_scalar T, False, None))
       \<and> (\<forall>more. rs_rows rows = [DNull] # more
             \<longrightarrow> firstColAny L T (Rows rows rest) = (zero_scalar T, True, None))"
  using assms by (cases T) (simp_all add: firstColAny_def Scan_def)

theorem firstColAny_no_row_vs_null_witness:
  "firstColAny example_lib T_int64
     (Rows \<lparr> rs_columns = Inr [''id''], rs_rows = [], rs_err = None \<rparr> []) = (SInt 0, False, None)
   \<and> firstColAny example_lib T_int64
     (Rows \<lparr> rs_columns = Inr [''id''], rs_rows = [[DNull]], rs_err = None \<rparr> []) = (SInt 0, True, None)"
  using firstColAny_no_row_vs_null
      [of "\<lparr> rs_columns = Inr [''id''], rs_rows = [], rs_err = None \<rparr>" "''id''" example_lib T_int64 "[]"]
    firstColAny_no_row_vs_null
      [of "\<lparr> rs_columns = Inr [''id''], rs_rows = [[DNull]], rs_err = None \<rparr>" "''id''" example_lib
        T_int64 "[]"]
  by simp

section \<open>Many rows into a slice\<close>














section \<open>The array of one named column\<close>

lemma scan_cells_nth:
  "scan_cells L dest row = Inr sd \<Longrightarrow> length dest = length row \<Longrightarrow>
     length sd = length row \<and> (\<forall>i<length row. scan_value L (dest ! i) (row ! i) = Inr (sd ! i))"
proof (induction L dest row arbitrary: sd rule: scan_cells.induct)
  case (1 L d ds v vs)
  from "1.prems" obtain d' ds' where d': "scan_value L d v = Inr d'"
    and ds': "scan_cells L ds vs = Inr ds'" and sd: "sd = d' # ds'"
    by (auto split: sum.splits)
  from "1.IH" [OF d' ds'] "1.prems"(2)
  have ih: "length ds' = length vs" "\<forall>i<length vs. scan_value L (ds ! i) (vs ! i) = Inr (ds' ! i)"
    by simp_all
  show ?case
  proof (intro conjI allI impI)
    show "length sd = length (v # vs)" using sd ih by simp
  next
    fix i assume "i < length (v # vs)"
    then show "scan_value L ((d # ds) ! i) ((v # vs) ! i) = Inr (sd ! i)"
      using d' ih sd by (cases i) simp_all
  qed
qed simp_all

lemma Scan_nth:
  assumes "Scan L dest row = Inr sd"
  shows "length row = length dest" and "length sd = length dest"
    and "i < length dest \<Longrightarrow> scan_value L (dest ! i) (row ! i) = Inr (sd ! i)"
proof -
  from assms have len: "length row = length dest" and sc: "scan_cells L dest row = Inr sd"
    by (auto simp: Scan_def split: if_splits)
  from scan_cells_nth [OF sc] len
  have "length sd = length row" "\<forall>i<length row. scan_value L (dest ! i) (row ! i) = Inr (sd ! i)"
    by simp_all
  with len show "length row = length dest" and "length sd = length dest"
    and "i < length dest \<Longrightarrow> scan_value L (dest ! i) (row ! i) = Inr (sd ! i)"
    by simp_all
qed

lemma first_index_bound:
  "first_index i cols name = Some k \<Longrightarrow> i \<le> k \<and> k < i + length cols"
  by (induction cols arbitrary: i) (fastforce split: if_splits)+

lemma array_scanDest_nth:
  "fieldIndex < n \<Longrightarrow> array_scanDest T n fieldIndex ! fieldIndex
     = (case T of T_int64 \<Rightarrow> NullInt64 0 False | T_string \<Rightarrow> NullString [] False)"
  by (simp add: array_scanDest_def)

lemma length_array_scanDest [simp]: "length (array_scanDest T n fieldIndex) = n"
  by (simp add: array_scanDest_def)

lemma scan_value_NullInt64:
  "scan_value L (NullInt64 a b) v = Inr sc \<Longrightarrow> \<exists>i. sc = NullInt64 i (v \<noteq> DNull)"
  by (cases v) (auto split: sum.splits)

lemma scan_value_NullString:
  "scan_value L (NullString a b) v = Inr sc \<Longrightarrow> \<exists>s. sc = NullString s (v \<noteq> DNull)"
  by (cases v) (auto split: sum.splits)

lemma cell_scalar_null [simp]: "cell_scalar L T DNull = None"
  by (cases T) (simp_all add: cell_scalar_def)

lemma cell_scalar_non_null:
  assumes "scan_value L (case T of T_int64 \<Rightarrow> NullInt64 0 False | T_string \<Rightarrow> NullString [] False) v
             = Inr sc" and "v \<noteq> DNull"
  shows "cell_scalar L T v \<noteq> None"
proof (cases T)
  case T_int64
  with assms scan_value_NullInt64 [of L 0 False v sc] show ?thesis
    by (auto simp: cell_scalar_def)
next
  case T_string
  with assms scan_value_NullString [of L "[]" False v sc] show ?thesis
    by (auto simp: cell_scalar_def)
qed

lemma findArray_step:
  assumes sc: "Scan L (array_scanDest T n fieldIndex) row = Inr sd" and fi: "fieldIndex < n"
  shows "findArray_loop L T n fieldIndex (row # rows) results
           = findArray_loop L T n fieldIndex rows
               (results @ (case cell_scalar L T (row ! fieldIndex) of None \<Rightarrow> [] | Some x \<Rightarrow> [x]))"
proof -
  from Scan_nth(3) [OF sc, of fieldIndex] fi
  have sv: "scan_value L (case T of T_int64 \<Rightarrow> NullInt64 0 False | T_string \<Rightarrow> NullString [] False)
              (row ! fieldIndex) = Inr (sd ! fieldIndex)"
    by (simp add: array_scanDest_nth)
  show ?thesis
  proof (cases T)
    case T_int64
    with sv scan_value_NullInt64 [of L 0 False "row ! fieldIndex" "sd ! fieldIndex"]
    obtain i where "sd ! fieldIndex = NullInt64 i (row ! fieldIndex \<noteq> DNull)" by auto
    with sv sc T_int64 show ?thesis by (auto simp: cell_scalar_def)
  next
    case T_string
    with sv scan_value_NullString [of L "[]" False "row ! fieldIndex" "sd ! fieldIndex"]
    obtain s where "sd ! fieldIndex = NullString s (row ! fieldIndex \<noteq> DNull)" by auto
    with sv sc T_string show ?thesis by (auto simp: cell_scalar_def)
  qed
qed

lemma findArray_loop_all:
  assumes "\<forall>row \<in> set rows. \<exists>sd. Scan L (array_scanDest T n fieldIndex) row = Inr sd"
    and "fieldIndex < n"
  shows "findArray_loop L T n fieldIndex rows results
           = Inr (results @ List.map_filter (cell_scalar L T) (map (\<lambda>row. row ! fieldIndex) rows))"
  using assms
proof (induction rows arbitrary: results)
  case Nil
  then show ?case by simp
next
  case (Cons row rows)
  then obtain sd where sc: "Scan L (array_scanDest T n fieldIndex) row = Inr sd" by auto
  from Cons.prems have rest: "\<forall>row \<in> set rows. \<exists>sd. Scan L (array_scanDest T n fieldIndex) row = Inr sd"
    by simp
  show ?case
    unfolding findArray_step [OF sc Cons.prems(2)] Cons.IH [OF rest Cons.prems(2)]
    by (simp split: option.splits)
qed

lemma kept_length:
  assumes "\<forall>row \<in> set rows. \<exists>sd. Scan L (array_scanDest T n fieldIndex) row = Inr sd"
    and "fieldIndex < n"
  shows "length (List.map_filter (cell_scalar L T) (map (\<lambda>row. row ! fieldIndex) rows))
           = length (filter (\<lambda>row. row ! fieldIndex \<noteq> DNull) rows)"
  using assms
proof (induction rows)
  case Nil
  then show ?case by simp
next
  case (Cons row rows)
  then obtain sd where sc: "Scan L (array_scanDest T n fieldIndex) row = Inr sd" by auto
  from Scan_nth(3) [OF sc, of fieldIndex] Cons.prems(2)
  have sv: "scan_value L (case T of T_int64 \<Rightarrow> NullInt64 0 False | T_string \<Rightarrow> NullString [] False)
              (row ! fieldIndex) = Inr (sd ! fieldIndex)"
    by (simp add: array_scanDest_nth)
  from Cons have ih: "length (List.map_filter (cell_scalar L T) (map (\<lambda>row. row ! fieldIndex) rows))
           = length (filter (\<lambda>row. row ! fieldIndex \<noteq> DNull) rows)"
    by simp
  show ?case
  proof (cases "row ! fieldIndex = DNull")
    case True
    with ih show ?thesis by simp
  next
    case False
    from cell_scalar_non_null [OF sv False]
    obtain x where "cell_scalar L T (row ! fieldIndex) = Some x" by auto
    with False ih show ?thesis by simp
  qed
qed

text \<open>
  C6. \<open>findArray\<close> over a column found in the result, when every row scans and the
  iteration ends without error: the output holds, in row order, exactly what the cells of
  the named column that are not SQL NULL contribute, one element each; a NULL cell
  contributes nothing (it is not turned into a zero value). With no row, or with only NULL
  in that column, the output is \<open>nil\<close>, which is neither the one-element sequence holding 0
  nor the one holding the empty string.
\<close>

theorem findArray_drops_null:
  assumes cols: "rs_columns rows = Inr columns"
    and idx: "first_index 0 columns fieldName = Some fieldIndex"
    and err: "rs_err rows = None"
    and scans: "\<forall>row \<in> set (rs_rows rows).
                  \<exists>sd. Scan L (array_scanDest T (length columns) fieldIndex) row = Inr sd"
  shows "\<exists>kept. kept = List.map_filter (cell_scalar L T) (map (\<lambda>row. row ! fieldIndex) (rs_rows rows))
           \<and> findArray L T fieldName (Rows rows rest) = (if kept = [] then None else Some kept, None)
           \<and> length kept = length (filter (\<lambda>row. row ! fieldIndex \<noteq> DNull) (rs_rows rows))
           \<and> cell_scalar L T DNull = None
           \<and> ((\<forall>row \<in> set (rs_rows rows). row ! fieldIndex = DNull) \<longrightarrow>
                findArray L T fieldName (Rows rows rest) = (None, None)
                \<and> fst (findArray L T fieldName (Rows rows rest)) \<noteq> Some [SInt 0]
                \<and> fst (findArray L T fieldName (Rows rows rest)) \<noteq> Some [SStr []])"
proof -
  let ?kept = "List.map_filter (cell_scalar L T) (map (\<lambda>row. row ! fieldIndex) (rs_rows rows))"
  from first_index_bound [OF idx] have fi: "fieldIndex < length columns" by simp
  have loop: "findArray_loop L T (length columns) fieldIndex (rs_rows rows) [] = Inr ?kept"
    using findArray_loop_all [OF scans fi, of "[]"] by simp
  have res: "findArray L T fieldName (Rows rows rest) = (if ?kept = [] then None else Some ?kept, None)"
    by (simp add: findArray_def cols idx err loop)
  have len: "length ?kept = length (filter (\<lambda>row. row ! fieldIndex \<noteq> DNull) (rs_rows rows))"
    using kept_length [OF scans fi] .
  have allnull: "(\<forall>row \<in> set (rs_rows rows). row ! fieldIndex = DNull) \<Longrightarrow> ?kept = []"
  proof -
    assume a: "\<forall>row \<in> set (rs_rows rows). row ! fieldIndex = DNull"
    then have "filter (\<lambda>row. row ! fieldIndex \<noteq> DNull) (rs_rows rows) = []" by (simp add: filter_empty_conv)
    with len show "?kept = []" by simp
  qed
  show ?thesis using res len allnull by auto
qed

lemma example_findArray_values:
  "findArray example_lib T_int64 ''id''
     (Rows \<lparr> rs_columns = Inr [''name'', ''id''],
             rs_rows = [[DBytes ''a'', DInt 0], [DBytes ''b'', DNull], [DNull, DInt 5]],
             rs_err = None \<rparr> [])
   = (Some [SInt 0, SInt 5], None)"
  by (simp add: findArray_def array_scanDest_def Scan_def upt_rec)

lemma example_findArray_only_null:
  "findArray example_lib T_int64 ''id''
     (Rows \<lparr> rs_columns = Inr [''name'', ''id''],
             rs_rows = [[DBytes ''a'', DNull], [DBytes ''b'', DNull]],
             rs_err = None \<rparr> [])
   = (None, None)"
  by (simp add: findArray_def array_scanDest_def Scan_def upt_rec)


theorem findArray_drops_null_witness:
  "\<exists>kept. findArray example_lib T_int64 ''id''
       (Rows \<lparr> rs_columns = Inr [''name'', ''id''],
               rs_rows = [[DBytes ''a'', DInt 0], [DBytes ''b'', DNull], [DNull, DInt 5]],
               rs_err = None \<rparr> []) = (Some kept, None)
     \<and> length kept = 2"
proof -
  let ?rows = "\<lparr> rs_columns = Inr [''name'', ''id''],
               rs_rows = [[DBytes ''a'', DInt 0], [DBytes ''b'', DNull], [DNull, DInt 5]],
               rs_err = None \<rparr>"
  have idx: "first_index 0 [''name'', ''id''] ''id'' = Some 1" by simp
  have scans: "\<forall>row \<in> set (rs_rows ?rows).
      \<exists>sd. Scan example_lib (array_scanDest T_int64 (length [''name'', ''id'']) 1) row = Inr sd"
    by (simp add: array_scanDest_def Scan_def upt_rec)
  have cols: "rs_columns ?rows = Inr [''name'', ''id'']" and err: "rs_err ?rows = None"
    by simp_all
  from findArray_drops_null [OF cols idx err scans, where rest = "[]"]
  show ?thesis by (auto split: if_splits)
qed

section \<open>The multi-result-set dispatcher: how many result sets\<close>










section \<open>The key of a map entry\<close>

lemma last_index_bound:
  "last_index i cols name found = Some k \<Longrightarrow> found = Some k \<or> (i \<le> k \<and> k < i + length cols)"
proof (induction cols arbitrary: i found)
  case Nil
  then show ?case by simp
next
  case (Cons c cols)
  from Cons.IH [OF Cons.prems [simplified]] show ?case
    by (auto split: if_splits)
qed

lemma findMap_loop_keeps_key:
  "findMap_loop L T Y vf m cols ki vi rows result = Inr res \<Longrightarrow> k \<in> fst ` set result
     \<Longrightarrow> k \<in> fst ` set res"
proof (induction rows arbitrary: result)
  case Nil
  then show ?case by simp
next
  case (Cons row rows)
  from Cons.prems(1) obtain sd where sc: "Scan L (map_scanDest Y vf m cols) row = Inr sd"
    by (auto split: sum.splits)
  show ?case
  proof (cases "row_key L T (sd ! ki)")
    case (Pair valid key)
    show ?thesis
    proof (cases valid)
      case False
      with Cons.prems sc Pair have "findMap_loop L T Y vf m cols ki vi rows result = Inr res" by simp
      from Cons.IH [OF this Cons.prems(2)] show ?thesis .
    next
      case True
      with Cons.prems(1) sc Pair obtain v where
        "findMap_loop L T Y vf m cols ki vi rows (AList.update key v result) = Inr res"
        by (auto split: sum.splits)
      moreover from Cons.prems(2) have "k \<in> fst ` set (AList.update key v result)"
        by (simp add: dom_update)
      ultimately show ?thesis by (rule Cons.IH)
    qed
  qed
qed

lemma findMap_loop_keeps_value:
  "findMap_loop L T Y vf m cols ki vi rows result = Inr res \<Longrightarrow> map_of result k = Some v
     \<Longrightarrow> \<forall>r \<in> set rows. \<forall>sd. Scan L (map_scanDest Y vf m cols) r = Inr sd
           \<longrightarrow> row_key L T (sd ! ki) \<noteq> (True, k)
     \<Longrightarrow> map_of res k = Some v"
proof (induction rows arbitrary: result)
  case Nil
  then show ?case by simp
next
  case (Cons row rows)
  from Cons.prems(1) obtain sd where sc: "Scan L (map_scanDest Y vf m cols) row = Inr sd"
    by (auto split: sum.splits)
  from Cons.prems(3) have later: "\<forall>r \<in> set rows. \<forall>sd. Scan L (map_scanDest Y vf m cols) r = Inr sd
           \<longrightarrow> row_key L T (sd ! ki) \<noteq> (True, k)" by simp
  from Cons.prems(3) sc have this_row: "row_key L T (sd ! ki) \<noteq> (True, k)" by simp
  show ?case
  proof (cases "row_key L T (sd ! ki)")
    case (Pair valid key)
    show ?thesis
    proof (cases valid)
      case False
      with Cons.prems(1) sc Pair have "findMap_loop L T Y vf m cols ki vi rows result = Inr res" by simp
      from Cons.IH [OF this Cons.prems(2) later] show ?thesis .
    next
      case True
      with Cons.prems(1) sc Pair obtain v' where
        run: "findMap_loop L T Y vf m cols ki vi rows (AList.update key v' result) = Inr res"
        by (auto split: sum.splits)
      from True Pair this_row have "key \<noteq> k" by simp
      with Cons.prems(2) have "map_of (AList.update key v' result) k = Some v"
        by (simp add: update_conv')
      from Cons.IH [OF run this later] show ?thesis .
    qed
  qed
qed

lemma findMap_loop_append:
  "findMap_loop L T Y vf m cols ki vi (before @ rows) result =
     (case findMap_loop L T Y vf m cols ki vi before result of
        Inl f \<Rightarrow> Inl f
      | Inr r \<Rightarrow> findMap_loop L T Y vf m cols ki vi rows r)"
proof (induction before arbitrary: result)
  case Nil
  show ?case by simp
next
  case (Cons row before)
  show ?case
  proof (cases "Scan L (map_scanDest Y vf m cols) row")
    case (Inl e)
    then show ?thesis by simp
  next
    case (Inr sd)
    show ?thesis
    proof (cases "row_key L T (sd ! ki)")
      case (Pair valid key)
      show ?thesis
      proof (cases valid)
        case False
        with Inr Pair Cons.IH show ?thesis by simp
      next
        case True
        show ?thesis
        proof (cases "row_value L Y vf m cols vi sd")
          case (Inl f)
          with Inr Pair True show ?thesis by simp
        next
          case (Inr v)
          with \<open>Scan L (map_scanDest Y vf m cols) row = Inr sd\<close> Pair True Cons.IH
          show ?thesis by simp
        qed
      qed
    qed
  qed
qed

lemma basic_scanDest:
  "\<not> (isStructType Y \<and> vf = []) \<Longrightarrow> ki < length cols
     \<Longrightarrow> map_scanDest Y vf m cols ! ki = NullString [] False"
  by (auto simp: map_scanDest_def)

lemma scan_text_key:
  assumes sc: "Scan L (map_scanDest Y vf m cols) row = Inr sd"
    and target: "map_scanDest Y vf m cols ! ki = NullString [] False"
    and ki: "ki < length cols"
    and cell: "row ! ki = DBytes s \<or> row ! ki = DString s"
  shows "sd ! ki = NullString s True"
proof -
  have "length (map_scanDest Y vf m cols) = length cols"
    by (simp add: map_scanDest_def make_scanDest_def)
  with Scan_nth(3) [OF sc, of ki] ki target
  have "scan_value L (NullString [] False) (row ! ki) = Inr (sd ! ki)" by simp
  with cell show ?thesis by auto
qed

text \<open>
  C5, as the code has it. In \<open>findMap\<close> with \<open>int64\<close> keys (\<open>findProcMap\<close> has the same body
  after \<open>Query\<close>), where the key column is scanned into a nullable string (so it is whenever
  a value column is named or \<open>Y\<close> is not a struct, and in the whole-struct mode when the key
  column is tagged on a string field or on none): when the key column of a row arrives as
  text that \<open>Sscanf\<close> cannot parse and the call returns no error, the row is not left out.
  Its key is the zero key 0 and its value is built as for any other row; the returned map is
  not \<open>nil\<close> and has an entry under 0, which holds this row's value unless a later row has
  the key 0 too.
\<close>

theorem findMap_unparsed_key_is_zero_key:
  assumes run: "findMap L KT_int64 Y keyField valueField (Rows rows rest) = (res, None)"
    and cols: "rs_columns rows = Inr columns"
    and key: "last_index 0 columns keyField None = Some keyIndex"
    and vi: "valueIndex = (if valueField \<noteq> [] then last_index 0 columns valueField None else None)"
    and fm: "fieldsMapping = (if isStructType Y then getFieldsMapping (struct_fields Y) else Map.empty)"
    and target: "map_scanDest Y valueField fieldsMapping columns ! keyIndex = NullString [] False"
    and row: "rs_rows rows = before @ row # after"
    and cell: "row ! keyIndex = DBytes s \<or> row ! keyIndex = DString s"
    and parse: "sscanf_d L s = None"
  shows "\<exists>m scanDest v. res = Some m
           \<and> Scan L (map_scanDest Y valueField fieldsMapping columns) row = Inr scanDest
           \<and> row_key L KT_int64 (scanDest ! keyIndex) = (True, KeyInt 0)
           \<and> row_value L Y valueField fieldsMapping columns valueIndex scanDest = Inr v
           \<and> map_of m (KeyInt 0) \<noteq> None
           \<and> ((\<forall>r \<in> set after. \<forall>sd. Scan L (map_scanDest Y valueField fieldsMapping columns) r = Inr sd
                   \<longrightarrow> row_key L KT_int64 (sd ! keyIndex) \<noteq> (True, KeyInt 0))
                \<longrightarrow> map_of m (KeyInt 0) = Some v)"
proof -
  from last_index_bound [OF key] have ki: "keyIndex < length columns" by simp
  from run cols key vi fm obtain result where
    loop: "findMap_loop L KT_int64 Y valueField fieldsMapping columns keyIndex valueIndex
             (rs_rows rows) [] = Inr result"
    and res: "res = (if length result = 0 then None else Some result)"
    by (auto simp: findMap_def Let_def split: if_splits sum.splits option.splits)
  from loop row have "findMap_loop L KT_int64 Y valueField fieldsMapping columns keyIndex valueIndex
             (before @ row # after) [] = Inr result" by simp
  then obtain r1 where
    step: "findMap_loop L KT_int64 Y valueField fieldsMapping columns keyIndex valueIndex
             (row # after) r1 = Inr result"
    by (auto simp: findMap_loop_append split: sum.splits)
  from step obtain sd where sc: "Scan L (map_scanDest Y valueField fieldsMapping columns) row = Inr sd"
    by (auto split: sum.splits)
  from scan_text_key [OF sc target ki cell] have "sd ! keyIndex = NullString s True" .
  with parse have rk: "row_key L KT_int64 (sd ! keyIndex) = (True, KeyInt 0)"
    by (simp add: row_key_def)
  with step sc obtain v where
    rv: "row_value L Y valueField fieldsMapping columns valueIndex sd = Inr v"
    and tail: "findMap_loop L KT_int64 Y valueField fieldsMapping columns keyIndex valueIndex after
                 (AList.update (KeyInt 0) v r1) = Inr result"
    by (auto split: sum.splits)
  have "KeyInt 0 \<in> fst ` set (AList.update (KeyInt 0) v r1)"
    by (simp add: dom_update)
  with tail have k: "KeyInt 0 \<in> fst ` set result" by (rule findMap_loop_keeps_key)
  then have "result \<noteq> []" by auto
  with res have m: "res = Some result" by simp
  from k have present: "map_of result (KeyInt 0) \<noteq> None"
    by (simp add: map_of_eq_None_iff)
  have stored: "map_of (AList.update (KeyInt 0) v r1) (KeyInt 0) = Some v"
    by (simp add: update_conv')
  have last: "(\<forall>r \<in> set after. \<forall>sd. Scan L (map_scanDest Y valueField fieldsMapping columns) r = Inr sd
                   \<longrightarrow> row_key L KT_int64 (sd ! keyIndex) \<noteq> (True, KeyInt 0))
                \<longrightarrow> map_of result (KeyInt 0) = Some v"
    using findMap_loop_keeps_value [OF tail stored] by blast
  from m sc rk rv present last show ?thesis by blast
qed

lemma skip_space_none:
  "s \<noteq> [] \<Longrightarrow> hd s \<noteq> CHR 0x0A \<Longrightarrow> space_len s = 0 \<Longrightarrow> skip_space s = Some s"
  by (subst skip_space.simps) simp

lemma sscanf_decimal_abc: "sscanf_decimal ''abc'' = None"
  by (simp add: sscanf_decimal_def skip_space_none space_len_def parse_int_def is_digit_def)

lemma sscanf_decimal_1: "sscanf_decimal ''1'' = Some 1"
  by (simp add: sscanf_decimal_def skip_space_none space_len_def parse_int_def is_digit_def)

lemma sscanf_decimal_0: "sscanf_decimal ''0'' = Some 0"
  by (simp add: sscanf_decimal_def skip_space_none space_len_def parse_int_def is_digit_def)

lemma example_unparsed_key_run:
  "findMap example_lib KT_int64 VT_string ''id'' ''name''
     (Rows \<lparr> rs_columns = Inr [''id'', ''name''],
             rs_rows = [[DBytes ''1'', DBytes ''a''], [DBytes ''abc'', DBytes ''x'']],
             rs_err = None \<rparr> [])
   = (Some [(KeyInt 1, ValStr ''a''), (KeyInt 0, ValStr ''x'')], None)"
  by (simp add: findMap_def map_scanDest_def Scan_def row_key_def row_value_def example_lib_def
      sscanf_decimal_abc sscanf_decimal_1)

text \<open>A later row with the key 0 takes the place of the row whose key did not parse.\<close>

lemma example_unparsed_key_replaced:
  "findMap example_lib KT_int64 VT_string ''id'' ''name''
     (Rows \<lparr> rs_columns = Inr [''id'', ''name''],
             rs_rows = [[DBytes ''abc'', DBytes ''x''], [DBytes ''0'', DBytes ''zero'']],
             rs_err = None \<rparr> [])
   = (Some [(KeyInt 0, ValStr ''zero'')], None)"
  by (simp add: findMap_def map_scanDest_def Scan_def row_key_def row_value_def example_lib_def
      sscanf_decimal_abc sscanf_decimal_0)

text \<open>
  In the whole-struct mode a key column mapped to a \<open>float64\<close> field is scanned into a
  nullable float, which the key switch does not know: the row is left out, whatever its key.
\<close>

lemma example_float_key_dropped:
  "findMap example_lib KT_int64 (VT_struct [Field ''id'' (Other KFloat64)]) ''id'' []
     (Rows \<lparr> rs_columns = Inr [''id''], rs_rows = [[DFloat 0]], rs_err = None \<rparr> [])
   = (None, None)"
  by (simp add: findMap_def map_scanDest_def make_scanDest_def getFieldsMapping_def Scan_def
      row_key_def createNullScanner_def is_signed_def is_unsigned_def is_float_def)

text \<open>
  C5, as stated, fails: of the rows \<open>("1", "a")\<close> and \<open>("abc", "x")\<close> the second, whose key
  does not parse, is returned under the key 0 instead of being left out.
\<close>

theorem findMap_unparsed_key_counterexample:
  "findMap example_lib KT_int64 VT_string ''id'' ''name''
     (Rows \<lparr> rs_columns = Inr [''id'', ''name''],
             rs_rows = [[DBytes ''1'', DBytes ''a''], [DBytes ''abc'', DBytes ''x'']],
             rs_err = None \<rparr> [])
   = (Some [(KeyInt 1, ValStr ''a''), (KeyInt 0, ValStr ''x'')], None)
   \<and> sscanf_d example_lib ''abc'' = None
   \<and> map_of [(KeyInt 1, ValStr ''a''), (KeyInt 0, ValStr ''x'')] (KeyInt 0) = Some (ValStr ''x'')"
  by (simp add: example_unparsed_key_run) (simp add: example_lib_def sscanf_decimal_abc)

theorem findMap_unparsed_key_is_zero_key_witness:
  "\<exists>m. fst (findMap example_lib KT_int64 VT_string ''id'' ''name''
            (Rows \<lparr> rs_columns = Inr [''id'', ''name''],
                    rs_rows = [[DBytes ''1'', DBytes ''a''], [DBytes ''abc'', DBytes ''x'']],
                    rs_err = None \<rparr> [])) = Some m
       \<and> map_of m (KeyInt 0) = Some (ValStr ''x'')"
proof -
  let ?rows = "\<lparr> rs_columns = Inr [''id'', ''name''],
             rs_rows = [[DBytes ''1'', DBytes ''a''], [DBytes ''abc'', DBytes ''x'']],
             rs_err = None \<rparr>"
  let ?fm = "if isStructType VT_string then getFieldsMapping (struct_fields VT_string) else Map.empty"
  let ?vi = "if ''name'' \<noteq> [] then last_index 0 [''id'', ''name''] ''name'' None else None"
  note run = example_unparsed_key_run
  have key: "last_index 0 [''id'', ''name''] ''id'' None = Some 0" by simp
  have parse: "sscanf_d example_lib ''abc'' = None" by (simp add: example_lib_def sscanf_decimal_abc)
  have target: "map_scanDest VT_string ''name'' ?fm [''id'', ''name''] ! 0 = NullString [] False"
    by (simp add: map_scanDest_def)
  have cols: "rs_columns ?rows = Inr [''id'', ''name'']" by simp
  have row: "rs_rows ?rows = [[DBytes ''1'', DBytes ''a'']] @ [DBytes ''abc'', DBytes ''x''] # []" by simp
  have cell: "[DBytes ''abc'', DBytes ''x''] ! 0 = DBytes ''abc''
      \<or> [DBytes ''abc'', DBytes ''x''] ! 0 = DString ''abc''" by simp
  from findMap_unparsed_key_is_zero_key [OF run cols key refl refl target row cell parse]
  obtain m sd v where m: "Some [(KeyInt 1, ValStr ''a''), (KeyInt 0, ValStr ''x'')] = Some m"
    and sc: "Scan example_lib (map_scanDest VT_string ''name'' ?fm [''id'', ''name''])
               [DBytes ''abc'', DBytes ''x''] = Inr sd"
    and rv: "row_value example_lib VT_string ''name'' ?fm [''id'', ''name''] ?vi sd = Inr v"
    and st: "map_of m (KeyInt 0) = Some v"
    by auto
  from sc have "sd = [NullString ''abc'' True, NullString ''x'' True]"
    by (simp add: map_scanDest_def Scan_def)
  with rv have "v = ValStr ''x''" by (simp add: row_value_def)
  with st m show ?thesis by (simp only: run fst_conv) simp
qed

section \<open>The raw JSON projection\<close>

lemma ExecByte_loop_some:
  assumes "\<forall>row \<in> set rows. length row = length cols"
  shows "ExecByte_loop cols rows (Some xs)
           = Inr (Some (xs @ map (\<lambda>row. make_rowMap (zip cols row) []) rows))"
  using assms by (induction rows arbitrary: xs) (simp_all add: Scan_any_def)

lemma ExecByte_loop_none:
  assumes "\<forall>row \<in> set rows. length row = length cols"
  shows "ExecByte_loop cols rows None
           = Inr (if rows = [] then None
                  else Some (map (\<lambda>row. make_rowMap (zip cols row) []) rows))"
proof (cases rows)
  case Nil
  then show ?thesis by simp
next
  case (Cons row rest)
  with assms ExecByte_loop_some [of rest cols "[make_rowMap (zip cols row) []]"]
  show ?thesis by (simp add: Scan_any_def)
qed

lemma marshal_members_keys:
  "marshal_members L kvs = Inr ms \<Longrightarrow> map fst ms = map fst kvs"
  by (induction kvs arbitrary: ms) (auto split: sum.splits)

lemma marshal_map_object:
  assumes "marshal_map L m = Inr j"
  shows "\<exists>ms. j = JObject ms \<and> fst ` set ms = fst ` set m"
proof -
  from assms obtain ms where ms: "marshal_members L (sort_key fst m) = Inr ms" and j: "j = JObject ms"
    by (auto simp: marshal_map_def split: sum.splits)
  from marshal_members_keys [OF ms] have "map fst ms = map fst (sort_key fst m)" .
  then have "set (map fst ms) = set (map fst (sort_key fst m))" by simp
  then have "fst ` set ms = fst ` set m" by simp
  with j show ?thesis by simp
qed

lemma marshal_maps_objects:
  "marshal_maps L ms = Inr js \<Longrightarrow>
     length js = length ms \<and> (\<forall>j \<in> set js. \<exists>members. j = JObject members)"
proof (induction ms arbitrary: js)
  case Nil
  then show ?case by simp
next
  case (Cons m ms)
  from Cons.prems obtain j js' where j: "marshal_map L m = Inr j"
    and js': "marshal_maps L ms = Inr js'" and js: "js = j # js'"
    by (auto split: sum.splits)
  from marshal_map_object [OF j] Cons.IH [OF js'] js show ?case by auto
qed

lemma make_rowMap_keys:
  "fst ` set (make_rowMap kvs rowMap) = fst ` set kvs \<union> fst ` set rowMap"
proof (induction kvs arbitrary: rowMap)
  case Nil
  then show ?case by simp
next
  case (Cons kv kvs)
  obtain k v where kv: "kv = (k, v)" by (cases kv)
  have "fst ` set (make_rowMap (kv # kvs) rowMap)
      = fst ` set kvs \<union> fst ` set (AList.update k v rowMap)"
    using Cons.IH [of "AList.update k v rowMap"] kv by simp
  also have "\<dots> = fst ` set kvs \<union> ({k} \<union> fst ` set rowMap)"
    by (simp only: dom_update)
  also have "\<dots> = fst ` set (kv # kvs) \<union> fst ` set rowMap"
    using kv by auto
  finally show ?case .
qed

lemma rowMap_keys:
  "length row = length cols \<Longrightarrow> fst ` set (make_rowMap (zip cols row) []) = set cols"
proof -
  assume "length row = length cols"
  then have "map fst (zip cols row) = cols" by simp
  then have "fst ` set (zip cols row) = set cols" by (metis set_map)
  then show ?thesis by (simp add: make_rowMap_keys)
qed

text \<open>
  C9, as the code has it. For \<open>ExecByte\<close> (and \<open>ExecProcByte\<close>, which has the same body) on a
  result whose rows all scan and whose iteration ends without error: with the single flag
  and at least one row the output is the first row alone, marshalled as a JSON object whose
  keys are the column names; with no row the output is the JSON text \<open>null\<close>, under either
  flag; with any other flag and at least one row it is a JSON array holding one object per
  row.
\<close>

theorem ExecByte_output_shape:
  assumes cols: "rs_columns rows = Inr columns"
    and err: "rs_err rows = None"
    and wf: "\<forall>row \<in> set (rs_rows rows). length row = length columns"
  shows "(\<forall>row others. isList = HAS_ONE \<and> rs_rows rows = row # others \<longrightarrow>
            ExecByte L isList (Rows rows rest)
              = (case marshal_map L (make_rowMap (zip columns row) []) of
                   Inl e \<Rightarrow> (None, Some (Err (''failed to marshal single result data: '' @ e)))
                 | Inr j \<Rightarrow> (Some j, None))
            \<and> fst ` set (make_rowMap (zip columns row) []) = set columns)
       \<and> (rs_rows rows = [] \<longrightarrow> ExecByte L isList (Rows rows rest) = (Some JNull, None))
       \<and> (isList \<noteq> HAS_ONE \<and> rs_rows rows \<noteq> [] \<longrightarrow>
            ExecByte L isList (Rows rows rest)
              = (case marshal_maps L (map (\<lambda>row. make_rowMap (zip columns row) []) (rs_rows rows)) of
                   Inl e \<Rightarrow> (None, Some (Err (''failed to marshal result data: '' @ e)))
                 | Inr js \<Rightarrow> (Some (JArray js), None)))
       \<and> (\<forall>m j. marshal_map L m = Inr j \<longrightarrow> (\<exists>ms. j = JObject ms \<and> fst ` set ms = fst ` set m))
       \<and> (\<forall>ms js. marshal_maps L ms = Inr js \<longrightarrow>
            length js = length ms \<and> (\<forall>j \<in> set js. \<exists>members. j = JObject members))"
proof -
  note loop = ExecByte_loop_none [OF wf]
  have one: "\<forall>row others. isList = HAS_ONE \<and> rs_rows rows = row # others \<longrightarrow>
            ExecByte L isList (Rows rows rest)
              = (case marshal_map L (make_rowMap (zip columns row) []) of
                   Inl e \<Rightarrow> (None, Some (Err (''failed to marshal single result data: '' @ e)))
                 | Inr j \<Rightarrow> (Some j, None))
            \<and> fst ` set (make_rowMap (zip columns row) []) = set columns"
  proof (intro allI impI)
    fix row others assume a: "isList = HAS_ONE \<and> rs_rows rows = row # others"
    with wf have "length row = length columns" by simp
    from rowMap_keys [OF this] a loop cols err
    show "ExecByte L isList (Rows rows rest)
              = (case marshal_map L (make_rowMap (zip columns row) []) of
                   Inl e \<Rightarrow> (None, Some (Err (''failed to marshal single result data: '' @ e)))
                 | Inr j \<Rightarrow> (Some j, None))
            \<and> fst ` set (make_rowMap (zip columns row) []) = set columns"
      by (simp add: ExecByte_def split: sum.splits)
  qed
  have none: "rs_rows rows = [] \<longrightarrow> ExecByte L isList (Rows rows rest) = (Some JNull, None)"
    using loop cols err by (simp add: ExecByte_def)
  have many: "isList \<noteq> HAS_ONE \<and> rs_rows rows \<noteq> [] \<longrightarrow>
            ExecByte L isList (Rows rows rest)
              = (case marshal_maps L (map (\<lambda>row. make_rowMap (zip columns row) []) (rs_rows rows)) of
                   Inl e \<Rightarrow> (None, Some (Err (''failed to marshal result data: '' @ e)))
                 | Inr js \<Rightarrow> (Some (JArray js), None))"
    using loop cols err by (simp add: ExecByte_def split: sum.splits)
  have obj: "\<forall>m j. marshal_map L m = Inr j \<longrightarrow> (\<exists>ms. j = JObject ms \<and> fst ` set ms = fst ` set m)"
    using marshal_map_object by blast
  have arr: "\<forall>ms js. marshal_maps L ms = Inr js \<longrightarrow>
            length js = length ms \<and> (\<forall>j \<in> set js. \<exists>members. j = JObject members)"
    using marshal_maps_objects by blast
  from one none many obj arr show ?thesis by blast
qed

lemma example_no_rows_null:
  "ExecByte example_lib HAS_LIST
     (Rows \<lparr> rs_columns = Inr [''id'', ''name''], rs_rows = [], rs_err = None \<rparr> [])
   = (Some JNull, None)"
  by (simp add: ExecByte_def HAS_LIST_def HAS_ONE_def)

lemma example_one_object:
  "ExecByte example_lib HAS_ONE
     (Rows \<lparr> rs_columns = Inr [''id'', ''name''],
             rs_rows = [[DInt 1, DBytes ''a''], [DInt 2, DNull]], rs_err = None \<rparr> [])
   = (Some (JObject [(''id'', JValue (DInt 1)), (''name'', JValue (DBytes ''a''))]), None)"
  by (simp add: ExecByte_def HAS_ONE_def Scan_any_def marshal_map_def example_lib_def
      example_json_error_def)

lemma example_list_array:
  "ExecByte example_lib HAS_LIST
     (Rows \<lparr> rs_columns = Inr [''name'', ''id''],
             rs_rows = [[DBytes ''a'', DInt 1], [DNull, DInt 2]], rs_err = None \<rparr> [])
   = (Some (JArray [JObject [(''id'', JValue (DInt 1)), (''name'', JValue (DBytes ''a''))],
                    JObject [(''id'', JValue (DInt 2)), (''name'', JNull)]]), None)"
  by (simp add: ExecByte_def HAS_ONE_def HAS_LIST_def Scan_any_def marshal_map_def example_lib_def
      example_json_error_def)


text \<open>
  C9, as stated, fails for a result without rows: the output is \<open>null\<close>, not an empty
  array, under the list flag and under the single flag.
\<close>

theorem ExecByte_no_rows_counterexample:
  "ExecByte example_lib HAS_LIST
     (Rows \<lparr> rs_columns = Inr [''id'', ''name''], rs_rows = [], rs_err = None \<rparr> [])
   = (Some JNull, None)
   \<and> ExecByte example_lib HAS_ONE
     (Rows \<lparr> rs_columns = Inr [''id'', ''name''], rs_rows = [], rs_err = None \<rparr> [])
   = (Some JNull, None)
   \<and> JNull \<noteq> JArray []"
  by (simp add: ExecByte_def HAS_LIST_def HAS_ONE_def)

theorem ExecByte_output_shape_witness:
  "ExecByte example_lib HAS_ONE
     (Rows \<lparr> rs_columns = Inr [''id'', ''name''],
             rs_rows = [[DInt 1, DBytes ''a''], [DInt 2, DNull]], rs_err = None \<rparr> [])
   = (case marshal_map example_lib (make_rowMap (zip [''id'', ''name''] [DInt 1, DBytes ''a'']) []) of
        Inl e \<Rightarrow> (None, Some (Err (''failed to marshal single result data: '' @ e)))
      | Inr j \<Rightarrow> (Some j, None))
   \<and> fst ` set (make_rowMap (zip [''id'', ''name''] [DInt 1, DBytes ''a'']) []) = set [''id'', ''name'']"
proof -
  let ?rows = "\<lparr> rs_columns = Inr [''id'', ''name''],
             rs_rows = [[DInt 1, DBytes ''a''], [DInt 2, DNull]], rs_err = None \<rparr>"
  have cols: "rs_columns ?rows = Inr [''id'', ''name'']" and err: "rs_err ?rows = None"
    and wf: "\<forall>row \<in> set (rs_rows ?rows). length row = length [''id'', ''name'']"
    by simp_all
  from ExecByte_output_shape [OF cols err wf, where isList = HAS_ONE and L = example_lib and rest = "[]"]
  have "\<forall>row others. HAS_ONE = HAS_ONE \<and> rs_rows ?rows = row # others \<longrightarrow>
            ExecByte example_lib HAS_ONE (Rows ?rows [])
              = (case marshal_map example_lib (make_rowMap (zip [''id'', ''name''] row) []) of
                   Inl e \<Rightarrow> (None, Some (Err (''failed to marshal single result data: '' @ e)))
                 | Inr j \<Rightarrow> (Some j, None))
            \<and> fst ` set (make_rowMap (zip [''id'', ''name''] row) []) = set [''id'', ''name'']"
    by (rule conjunct1)
  from this [rule_format, of "[DInt 1, DBytes ''a'']" "[[DInt 2, DNull]]"]
  show ?thesis by simp
qed

end
